theory Spec2Isabelle
  imports Main "HOL-Library.Sublist"
begin

section \<open>JavaScript values\<close>

text \<open>
  The values that flow through \<^verbatim>\<open>index.js\<close>: the fields of Firestore documents and the
  parsed JSON of an HTTP reply. A number is represented by the text that
  \<^verbatim>\<open>Number.prototype.toString\<close> gives for it (\<open>''3000''\<close>, \<open>''1.5''\<close>, \<open>''NaN''\<close>,
  \<open>''Infinity''\<close>): every operation the program applies to a number (string coercion,
  JSON serialisation, truthiness) is a function of that text. A string is a list of
  8-bit characters. An object is the list of its own properties in enumeration order.
\<close>

datatype jsval =
    JUndefined
  | JNull
  | JBool bool
  | JNum string
  | JStr string
  | JArr "jsval list"
  | JObj "(string \<times> jsval) list"

datatype error =
    TypeError string
  | SyntaxError string
  | Error string
  | HttpsError string string

definition and_then :: "error + 'a \<Rightarrow> ('a \<Rightarrow> error + 'b) \<Rightarrow> error + 'b" where
  "and_then r f = (case r of Inl e \<Rightarrow> Inl e | Inr x \<Rightarrow> f x)"

definition quoted :: "string \<Rightarrow> string" where
  "quoted k = [CHR 0x27] @ k @ [CHR 0x27]"

definition own_property :: "(string \<times> jsval) list \<Rightarrow> string \<Rightarrow> jsval" where
  "own_property kvs k = (case map_of kvs k of None \<Rightarrow> JUndefined | Some v \<Rightarrow> v)"

text \<open>
  \<^verbatim>\<open>v.k\<close> for the property names the program reads (\<^verbatim>\<open>error\<close>, \<^verbatim>\<open>message\<close>,
  \<^verbatim>\<open>choices\<close>, \<^verbatim>\<open>content\<close>), none of which is a built-in property of a string,
  a number, a boolean or an array.
\<close>

fun get_field :: "jsval \<Rightarrow> string \<Rightarrow> error + jsval" where
  "get_field JUndefined k =
     Inl (TypeError (''Cannot read properties of undefined (reading '' @ quoted k @ '')''))"
| "get_field JNull k =
     Inl (TypeError (''Cannot read properties of null (reading '' @ quoted k @ '')''))"
| "get_field (JObj kvs) k = Inr (own_property kvs k)"
| "get_field v k = Inr JUndefined"

text \<open>\<^verbatim>\<open>v[0]\<close>.\<close>

fun get_index0 :: "jsval \<Rightarrow> error + jsval" where
  "get_index0 JUndefined =
     Inl (TypeError (''Cannot read properties of undefined (reading '' @ quoted ''0'' @ '')''))"
| "get_index0 JNull =
     Inl (TypeError (''Cannot read properties of null (reading '' @ quoted ''0'' @ '')''))"
| "get_index0 (JArr vs) = Inr (case vs of [] \<Rightarrow> JUndefined | v # _ \<Rightarrow> v)"
| "get_index0 (JStr s) = Inr (case s of [] \<Rightarrow> JUndefined | c # _ \<Rightarrow> JStr [c])"
| "get_index0 (JObj kvs) = Inr (own_property kvs ''0'')"
| "get_index0 v = Inr JUndefined"

text \<open>The test of \<^verbatim>\<open>if (v)\<close>.\<close>

fun truthy :: "jsval \<Rightarrow> bool" where
  "truthy JUndefined = False"
| "truthy JNull = False"
| "truthy (JBool b) = b"
| "truthy (JNum r) = (r \<noteq> ''0'' \<and> r \<noteq> ''NaN'')"
| "truthy (JStr s) = (s \<noteq> [])"
| "truthy (JArr vs) = True"
| "truthy (JObj kvs) = True"

text \<open>
  The string conversion of a template literal and of \<^verbatim>\<open>Array.prototype.join\<close>. An
  array converts to its elements joined by commas, \<^verbatim>\<open>undefined\<close> and \<^verbatim>\<open>null\<close>
  elements giving the empty string. An object converts through \<^verbatim>\<open>Object.prototype.toString\<close>
  unless an own property \<^verbatim>\<open>toString\<close> (data, so not callable) hides it.
\<close>

fun ToString :: "jsval \<Rightarrow> error + string"
  and join_comma :: "jsval list \<Rightarrow> error + string" where
  "ToString JUndefined = Inr ''undefined''"
| "ToString JNull = Inr ''null''"
| "ToString (JBool b) = Inr (if b then ''true'' else ''false'')"
| "ToString (JNum r) = Inr r"
| "ToString (JStr s) = Inr s"
| "ToString (JArr vs) = join_comma vs"
| "ToString (JObj kvs) =
     (if map_of kvs ''toString'' \<noteq> None
      then Inl (TypeError ''Cannot convert object to primitive value'')
      else Inr ''[object Object]'')"
| "join_comma [] = Inr []"
| "join_comma (v # vs) =
     and_then (if v = JUndefined \<or> v = JNull then Inr [] else ToString v) (\<lambda>t.
       if vs = [] then Inr t
       else and_then (join_comma vs) (\<lambda>ts. Inr (t @ '','' @ ts)))"

text \<open>The method call \<^verbatim>\<open>v.toString()\<close>.\<close>

definition toString_method :: "jsval \<Rightarrow> error + string" where
  "toString_method v =
     (case v of
        JUndefined \<Rightarrow>
          Inl (TypeError (''Cannot read properties of undefined (reading ''
                          @ quoted ''toString'' @ '')''))
      | JNull \<Rightarrow>
          Inl (TypeError (''Cannot read properties of null (reading ''
                          @ quoted ''toString'' @ '')''))
      | JObj kvs \<Rightarrow>
          (if map_of kvs ''toString'' \<noteq> None
           then Inl (TypeError ''doc.data(...).uid.toString is not a function'')
           else Inr ''[object Object]'')
      | _ \<Rightarrow> ToString v)"

subsection \<open>JSON.stringify\<close>

definition hex_digit :: "nat \<Rightarrow> char" where
  "hex_digit n = ''0123456789abcdef'' ! (n mod 16)"

definition json_escape :: "char \<Rightarrow> string" where
  "json_escape c =
     (if c = CHR 0x22 then [CHR 0x5C, CHR 0x22]
      else if c = CHR 0x5C then [CHR 0x5C, CHR 0x5C]
      else if c = CHR 0x08 then [CHR 0x5C, CHR ''b'']
      else if c = CHR 0x0C then [CHR 0x5C, CHR ''f'']
      else if c = CHR 0x0A then [CHR 0x5C, CHR ''n'']
      else if c = CHR 0x0D then [CHR 0x5C, CHR ''r'']
      else if c = CHR 0x09 then [CHR 0x5C, CHR ''t'']
      else if (of_char c :: nat) < 32
        then [CHR 0x5C, CHR ''u'', CHR ''0'', CHR ''0'',
              hex_digit (of_char c div 16), hex_digit (of_char c)]
      else [c])"

definition json_quote :: "string \<Rightarrow> string" where
  "json_quote s = [CHR 0x22] @ concat (map json_escape s) @ [CHR 0x22]"

fun commas :: "string list \<Rightarrow> string" where
  "commas [] = []"
| "commas [t] = t"
| "commas (t # u # ts) = t @ '','' @ commas (u # ts)"

text \<open>
  \<open>json_value\<close> is the serialisation of one value, \<open>None\<close> where JavaScript gives
  \<^verbatim>\<open>undefined\<close>: such an array element is written \<^verbatim>\<open>null\<close> and such a property is
  left out.
\<close>

fun json_value :: "jsval \<Rightarrow> string option"
  and json_elems :: "jsval list \<Rightarrow> string list"
  and json_props :: "(string \<times> jsval) list \<Rightarrow> string list" where
  "json_value JUndefined = None"
| "json_value JNull = Some ''null''"
| "json_value (JBool b) = Some (if b then ''true'' else ''false'')"
| "json_value (JNum r) =
     Some (if r = ''NaN'' \<or> r = ''Infinity'' \<or> r = ''-Infinity'' then ''null'' else r)"
| "json_value (JStr s) = Some (json_quote s)"
| "json_value (JArr vs) = Some (''['' @ commas (json_elems vs) @ '']'')"
| "json_value (JObj kvs) = Some (''{'' @ commas (json_props kvs) @ ''}'')"
| "json_elems [] = []"
| "json_elems (v # vs) =
     (case json_value v of None \<Rightarrow> ''null'' | Some t \<Rightarrow> t) # json_elems vs"
| "json_props [] = []"
| "json_props (kv # kvs) =
     (case json_value (snd kv) of
        None \<Rightarrow> json_props kvs
      | Some t \<Rightarrow> (json_quote (fst kv) @ '':'' @ t) # json_props kvs)"

text \<open>\<^verbatim>\<open>JSON.stringify\<close> of an array and of an object literal: always a string.\<close>

definition stringify_array :: "jsval list \<Rightarrow> string" where
  "stringify_array vs = ''['' @ commas (json_elems vs) @ '']''"

definition stringify_object :: "(string \<times> jsval) list \<Rightarrow> string" where
  "stringify_object kvs = ''{'' @ commas (json_props kvs) @ ''}''"


section \<open>The collaborators\<close>

text \<open>A Firestore document is the object \<^verbatim>\<open>doc.data()\<close> returns.\<close>

type_synonym document = "(string \<times> jsval) list"

record request =
  url :: string
  http_method :: string
  headers :: "(string \<times> string) list"
  body :: string

text \<open>
  An HTTP reply: its status and what \<^verbatim>\<open>response.json()\<close> resolves to, or the error it
  rejects with. \<^verbatim>\<open>response.ok\<close> is a status from 200 to 299.
\<close>

record response =
  status :: nat
  json :: "error + jsval"

definition ok :: "response \<Rightarrow> bool" where
  "ok r = (200 \<le> status r \<and> status r \<le> 299)"

text \<open>A document write staged in a batch: the document id and the data set.\<close>

record write_op =
  doc_id :: string
  doc_data :: document

text \<open>
  Everything outside the program, fixed for one invocation:
  \<^item> \<open>app_users\<close>, \<open>user_journals\<close>: what \<^verbatim>\<open>db.collection(..).get()\<close> resolves to
    (the documents in fetch order) or rejects with;
  \<^item> \<open>fetch_reply n req\<close>: the outcome of the \<open>n\<close>-th call of \<^verbatim>\<open>fetch\<close> (counted from 0
    over the invocation) with request \<open>req\<close>, so that any sequence of replies is covered;
  \<^item> \<open>doc_rejects\<close>, \<open>set_rejects\<close>: the argument validation of
    \<^verbatim>\<open>db.collection("users_insights").doc(id)\<close> and of \<^verbatim>\<open>batch.set(ref, data)\<close>,
    \<open>Some e\<close> where the call throws \<open>e\<close>;
  \<^item> \<open>commit_rejects\<close>: \<open>Some e\<close> where \<^verbatim>\<open>batch.commit()\<close> rejects with \<open>e\<close>;
  \<^item> \<open>now_millis k\<close>: the \<open>k\<close>-th reading of \<^verbatim>\<open>DateTime.now().toMillis()\<close>.
\<close>

record env =
  app_users :: "error + document list"
  user_journals :: "error + document list"
  fetch_reply :: "nat \<Rightarrow> request \<Rightarrow> error + response"
  doc_rejects :: "string \<Rightarrow> error option"
  set_rejects :: "string \<Rightarrow> document \<Rightarrow> error option"
  commit_rejects :: "write_op list \<Rightarrow> error option"
  now_millis :: "nat \<Rightarrow> string"

text \<open>
  What the invocation changes: the requests sent with \<^verbatim>\<open>fetch\<close>, the lines written with
  \<^verbatim>\<open>console.error\<close>, and the collection \<^verbatim>\<open>users_insights\<close>.
\<close>

record state =
  requests :: "request list"
  console :: "(string \<times> error) list"
  users_insights :: "string \<rightharpoonup> document"

section \<open>The program\<close>

record user =
  uid :: string

record journal =
  journal_uid :: jsval
  rememberThisDayBy :: jsval
  moodToday :: jsval
  challenges :: jsval

record insight_entry =
  insight :: jsval
  insight_uid :: string

text \<open>\<^verbatim>\<open>xs.map(f)\<close> where \<open>f\<close> may throw: the first exception ends the traversal.\<close>

fun map_throwing :: "('a \<Rightarrow> error + 'b) \<Rightarrow> 'a list \<Rightarrow> error + 'b list" where
  "map_throwing f [] = Inr []"
| "map_throwing f (x # xs) =
     and_then (f x) (\<lambda>y. and_then (map_throwing f xs) (\<lambda>ys. Inr (y # ys)))"

definition user_of_doc :: "document \<Rightarrow> error + user" where
  "user_of_doc d =
     and_then (toString_method (own_property d ''uid'')) (\<lambda>s. Inr \<lparr>uid = s\<rparr>)"

definition getAllUser :: "env \<Rightarrow> error + user list" where
  "getAllUser en = and_then (app_users en) (map_throwing user_of_doc)"

definition journal_of_doc :: "document \<Rightarrow> journal" where
  "journal_of_doc d =
     \<lparr>journal_uid = own_property d ''uid'',
      rememberThisDayBy = own_property d ''rememberThisDayBy'',
      moodToday = own_property d ''moodToday'',
      challenges = own_property d ''challenges''\<rparr>"

definition getUsersJournals :: "env \<Rightarrow> error + journal list" where
  "getUsersJournals en = and_then (user_journals en) (\<lambda>docs. Inr (map journal_of_doc docs))"

subsection \<open>fetchInsightsFromOpenAI\<close>

definition spaces :: "nat \<Rightarrow> string" where
  "spaces n = replicate n (CHR 0x20)"

definition prompt_before :: string where
  "prompt_before =
     ''Respond as the second person (You), who was asked thes'' @ [CHR 0x0A]
     @ spaces 20 @ ''three questions: [My mood today?, I'' @ [CHR 0x27]
     @ ''ll remember this day by?'' @ [CHR 0x0A]
     @ spaces 20 @ '', Challenges I'' @ [CHR 0x27]
     @ ''m facing] on a daily basis, and his answers'' @ [CHR 0x0A]
     @ spaces 14 @ ''were these: ''"

definition prompt_after :: string where
  "prompt_after =
     ''. Based on these entries, give him three'' @ [CHR 0x0A]
     @ spaces 15 @ ''insights about him. Respond with a single List<String>'' @ [CHR 0x0A]
     @ spaces 16 @ ''containing a maximum of 3 strings in the following format:''
     @ [CHR 0x0A]
     @ spaces 24 @ ''['' @ quoted ''Insight 1'' @ '', '' @ quoted ''Insight 2'' @ '', ''
     @ quoted ''Insight 3'' @ '']''"

definition prompt :: "string \<Rightarrow> string" where
  "prompt journals = prompt_before @ journals @ prompt_after"

definition request_payload :: "string \<Rightarrow> (string \<times> jsval) list" where
  "request_payload journals =
     [(''model'', JStr ''gpt-3.5-turbo''),
      (''messages'',
         JArr [JObj [(''role'', JStr ''user''), (''content'', JStr (prompt journals))]]),
      (''max_tokens'', JNum ''3000'')]"

definition api_key :: string where
  "api_key = []"

definition insight_request :: "string \<Rightarrow> request" where
  "insight_request journals =
     \<lparr>url = ''https://api.openai.com/v1/chat/completions'',
      http_method = ''POST'',
      headers = [(''Content-Type'', ''application/json''),
                 (''Authorization'', ''Bearer '' @ api_key)],
      body = stringify_object (request_payload journals)\<rparr>"

text \<open>The decimal text of an HTTP status, as the template literal writes it.\<close>

fun decimal :: "nat \<Rightarrow> string" where
  "decimal n =
     (if n < 10 then [''0123456789'' ! n]
      else decimal (n div 10) @ [''0123456789'' ! (n mod 10)])"

declare decimal.simps [simp del]

text \<open>The body of the \<^verbatim>\<open>try\<close> block, given the outcome of the \<^verbatim>\<open>fetch\<close> call.\<close>

definition read_reply :: "error + response \<Rightarrow> error + jsval" where
  "read_reply outcome =
     and_then outcome (\<lambda>resp.
       if \<not> ok resp then
         and_then (json resp) (\<lambda>errorData.
         and_then (get_field errorData ''error'') (\<lambda>err.
         and_then (get_field err ''message'') (\<lambda>msg.
         and_then (ToString msg) (\<lambda>text.
           Inl (Error (''HTTP '' @ decimal (status resp) @ '': '' @ text))))))
       else
         and_then (json resp) (\<lambda>data.
         and_then (get_field data ''choices'') (\<lambda>choices.
         and_then (get_index0 choices) (\<lambda>choice.
         and_then (get_field choice ''message'') (\<lambda>message.
           get_field message ''content'')))))"

definition fetchInsightsFromOpenAI ::
  "env \<Rightarrow> string \<Rightarrow> state \<Rightarrow> (error + jsval) \<times> state" where
  "fetchInsightsFromOpenAI en journals s =
     (let req = insight_request journals;
          s1 = s\<lparr>requests := requests s @ [req]\<rparr>
      in case read_reply (fetch_reply en (length (requests s)) req) of
           Inr content \<Rightarrow> (Inr content, s1)
         | Inl e \<Rightarrow>
             (Inl e, s1\<lparr>console := console s1 @ [(''Error fetching insights:'', e)]\<rparr>))"

subsection \<open>generateUserInsights\<close>

definition journal_value :: "journal \<Rightarrow> jsval" where
  "journal_value j =
     JObj [(''uid'', journal_uid j),
           (''rememberThisDayBy'', rememberThisDayBy j),
           (''moodToday'', moodToday j),
           (''challenges'', challenges j)]"

text \<open>\<^verbatim>\<open>journal.uid === userId\<close>, where \<^verbatim>\<open>userId\<close> is a string.\<close>

definition journals_of :: "string \<Rightarrow> journal list \<Rightarrow> journal list" where
  "journals_of userId journals = filter (\<lambda>j. journal_uid j = JStr userId) journals"

text \<open>The \<^verbatim>\<open>for\<close> loop over the users, \<open>insightsList\<close> being the list built so far.\<close>

fun insights_loop ::
  "env \<Rightarrow> user list \<Rightarrow> journal list \<Rightarrow> insight_entry list \<Rightarrow> state
   \<Rightarrow> (error + insight_entry list) \<times> state" where
  "insights_loop en [] journals insightsList s = (Inr insightsList, s)"
| "insights_loop en (singleUser # users) journals insightsList s =
     (let userId = uid singleUser;
          userJournals = journals_of userId journals
      in if length userJournals > 0 then
           (let data = stringify_array (map journal_value userJournals)
            in case fetchInsightsFromOpenAI en data s of
                 (Inl e, s1) \<Rightarrow> (Inl e, s1)
               | (Inr resp, s1) \<Rightarrow>
                   if truthy resp
                   then insights_loop en users journals
                          (insightsList @ [\<lparr>insight = resp, insight_uid = userId\<rparr>]) s1
                   else insights_loop en users journals insightsList s1)
         else insights_loop en users journals insightsList s)"

definition generateUserInsights ::
  "env \<Rightarrow> state \<Rightarrow> (error + insight_entry list) \<times> state" where
  "generateUserInsights en s =
     (case getAllUser en of
        Inl e \<Rightarrow> (Inl e, s)
      | Inr users \<Rightarrow>
          (case getUsersJournals en of
             Inl e \<Rightarrow> (Inl e, s)
           | Inr journals \<Rightarrow> insights_loop en users journals [] s))"

subsection \<open>addInsights\<close>

definition insight_document :: "env \<Rightarrow> nat \<Rightarrow> insight_entry \<Rightarrow> document" where
  "insight_document en k i =
     [(''insights'', insight i),
      (''uid'', JStr (insight_uid i)),
      (''createdAt'', JNum (now_millis en k))]"

text \<open>
  The \<^verbatim>\<open>forEach\<close> that fills the batch; \<open>k\<close> counts the clock readings and \<open>batch\<close> is
  the list of writes staged so far.
\<close>

fun stage_writes ::
  "env \<Rightarrow> nat \<Rightarrow> insight_entry list \<Rightarrow> write_op list \<Rightarrow> error + write_op list" where
  "stage_writes en k [] batch = Inr batch"
| "stage_writes en k (i # rest) batch =
     (case doc_rejects en (insight_uid i) of
        Some e \<Rightarrow> Inl e
      | None \<Rightarrow>
          (let d = insight_document en k i
           in case set_rejects en (insight_uid i) d of
                Some e \<Rightarrow> Inl e
              | None \<Rightarrow>
                  stage_writes en (Suc k) rest
                    (batch @ [\<lparr>doc_id = insight_uid i, doc_data = d\<rparr>])))"

text \<open>
  A committed batch applies its writes in order; \<^verbatim>\<open>set\<close> replaces the document whole.
  A batch whose commit is rejected applies none of them: the batch is Firestore's atomic
  unit, and the program writes through nothing else.
\<close>

fun apply_writes :: "write_op list \<Rightarrow> (string \<rightharpoonup> document) \<Rightarrow> (string \<rightharpoonup> document)" where
  "apply_writes [] m = m"
| "apply_writes (w # ws) m = apply_writes ws (m(doc_id w \<mapsto> doc_data w))"

definition failed_to_add :: error where
  "failed_to_add = HttpsError ''internal'' ''Failed to add insights.''"

definition on_error :: "error \<Rightarrow> state \<Rightarrow> (error + jsval) \<times> state" where
  "on_error e s =
     (Inl failed_to_add, s\<lparr>console := console s @ [(''Error adding insights:'', e)]\<rparr>)"

definition added :: jsval where
  "added = JObj [(''message'', JStr ''Insights added successfully.'')]"

definition addInsights :: "env \<Rightarrow> state \<Rightarrow> (error + jsval) \<times> state" where
  "addInsights en s =
     (case generateUserInsights en s of
        (Inl e, s1) \<Rightarrow> on_error e s1
      | (Inr insightsList, s1) \<Rightarrow>
          (case stage_writes en 0 insightsList [] of
             Inl e \<Rightarrow> on_error e s1
           | Inr batch \<Rightarrow>
               (case commit_rejects en batch of
                  Some e \<Rightarrow> on_error e s1
                | None \<Rightarrow>
                    (Inr added,
                     s1\<lparr>users_insights := apply_writes batch (users_insights s1)\<rparr>))))"

section \<open>Example inputs\<close>

text \<open>The scenario of the specification: user \<^verbatim>\<open>u1\<close> with one journal entry.\<close>

definition initial_state :: state where
  "initial_state = \<lparr>requests = [], console = [], users_insights = Map.empty\<rparr>"

definition u1_doc :: document where
  "u1_doc = [(''uid'', JStr ''u1'')]"

definition u2_doc :: document where
  "u2_doc = [(''uid'', JStr ''u2'')]"

definition u1_journal_doc :: document where
  "u1_journal_doc =
     [(''uid'', JStr ''u1''), (''moodToday'', JStr ''ok''),
      (''rememberThisDayBy'', JStr ''coffee''), (''challenges'', JStr ''none'')]"

definition u1_journal :: journal where
  "u1_journal =
     \<lparr>journal_uid = JStr ''u1'', rememberThisDayBy = JStr ''coffee'',
      moodToday = JStr ''ok'', challenges = JStr ''none''\<rparr>"

definition dq :: "string \<Rightarrow> string" where
  "dq t = [CHR 0x22] @ t @ [CHR 0x22]"

text \<open>The JSON text of the one-element array holding that entry.\<close>

definition u1_text :: string where
  "u1_text =
     ''[{'' @ dq ''uid'' @ '':'' @ dq ''u1'' @ '',''
     @ dq ''rememberThisDayBy'' @ '':'' @ dq ''coffee'' @ '',''
     @ dq ''moodToday'' @ '':'' @ dq ''ok'' @ '',''
     @ dq ''challenges'' @ '':'' @ dq ''none'' @ ''}]''"

text \<open>A chat-completion reply with the given content, and an error reply.\<close>

definition chat_reply :: "jsval \<Rightarrow> response" where
  "chat_reply c =
     \<lparr>status = 200,
      json = Inr (JObj [(''choices'', JArr [JObj [(''message'', JObj [(''content'', c)])]])])\<rparr>"

definition rate_limited :: response where
  "rate_limited =
     \<lparr>status = 429,
      json = Inr (JObj [(''error'', JObj [(''message'', JStr ''Rate limit reached'')])])\<rparr>"

definition example_env :: "document list \<Rightarrow> response \<Rightarrow> error option \<Rightarrow> env" where
  "example_env users reply commit =
     \<lparr>app_users = Inr users,
      user_journals = Inr [u1_journal_doc],
      fetch_reply = (\<lambda>n req. Inr reply),
      doc_rejects = (\<lambda>i. None),
      set_rejects = (\<lambda>i d. None),
      commit_rejects = (\<lambda>b. commit),
      now_millis = (\<lambda>k. ''1700000000000'')\<rparr>"

definition u2_journal_doc :: document where
  "u2_journal_doc =
     [(''uid'', JStr ''u2''), (''moodToday'', JStr ''tired''),
      (''rememberThisDayBy'', JStr ''rain''), (''challenges'', JStr ''sleep'')]"

definition failing_env :: env where
  "failing_env =
     (example_env [u1_doc, u2_doc] rate_limited None)
       \<lparr>user_journals := Inr [u1_journal_doc, u2_journal_doc]\<rparr>"

definition rate_limit_error :: error where
  "rate_limit_error = Error ''HTTP 429: Rate limit reached''"

definition after_failure :: state where
  "after_failure =
     initial_state\<lparr>requests := [insight_request u1_text],
                   console := [(''Error fetching insights:'', rate_limit_error)]\<rparr>"

definition unformatted :: jsval where
  "unformatted = JStr ''Sorry, no list today''"

definition no_uid_doc :: document where
  "no_uid_doc = [(''name'', JStr ''Ann'')]"

definition undefined_toString :: error where
  "undefined_toString =
     TypeError (''Cannot read properties of undefined (reading '' @ quoted ''toString'' @ '')'')"

definition unavailable :: error where
  "unavailable = Error ''The service is currently unavailable.''"

definition u1_insight :: insight_entry where
  "u1_insight = \<lparr>insight = JStr ''x'', insight_uid = ''u1''\<rparr>"

definition u1_write :: write_op where
  "u1_write =
     \<lparr>doc_id = ''u1'',
      doc_data = [(''insights'', JStr ''x''), (''uid'', JStr ''u1''),
                  (''createdAt'', JNum ''1700000000000'')]\<rparr>"



section \<open>Basic facts\<close>

lemma and_then_Inl [simp]: "and_then (Inl e) f = Inl e"
  by (simp add: and_then_def)

lemma and_then_Inr [simp]: "and_then (Inr x) f = f x"
  by (simp add: and_then_def)

lemma and_then_eq_Inr:
  "and_then r f = Inr y \<longleftrightarrow> (\<exists>x. r = Inr x \<and> f x = Inr y)"
  by (cases r) simp_all

lemma fetch_requests:
  "fetchInsightsFromOpenAI en j s = (r, s') \<Longrightarrow>
     requests s' = requests s @ [insight_request j] \<and> users_insights s' = users_insights s"
  by (auto simp: fetchInsightsFromOpenAI_def Let_def split: sum.splits)

lemma fetch_console:
  "fetchInsightsFromOpenAI en j s = (Inl e, s') \<Longrightarrow>
     console s' = console s @ [(''Error fetching insights:'', e)]"
  by (auto simp: fetchInsightsFromOpenAI_def Let_def split: sum.splits)


lemma journals_of_member:
  "journals_of u js \<noteq> [] \<Longrightarrow> \<exists>j\<in>set js. journal_uid j = JStr u"
  by (auto simp: journals_of_def filter_empty_conv)

lemma journals_of_none:
  "\<forall>j\<in>set js. journal_uid j \<noteq> JStr u \<Longrightarrow> journals_of u js = []"
  by (simp add: journals_of_def filter_empty_conv)

lemma loop_append:
  "insights_loop en (xs @ ys) js acc s =
     (case insights_loop en xs js acc s of
        (Inl e, s1) \<Rightarrow> (Inl e, s1)
      | (Inr acc1, s1) \<Rightarrow> insights_loop en ys js acc1 s1)"
proof (induction xs arbitrary: acc s)
  case Nil
  show ?case by simp
next
  case (Cons x xs)
  show ?case
    by (simp add: Let_def Cons.IH split: prod.splits sum.splits)
qed

lemma loop_output:
  "insights_loop en us js acc s = (Inr out, s') \<Longrightarrow>
     \<exists>new. out = acc @ new \<and> subseq (map insight_uid new) (map uid us)
       \<and> (\<forall>i\<in>set new. \<exists>j\<in>set js. journal_uid j = JStr (insight_uid i))"
proof (induction us arbitrary: acc s)
  case Nil
  then show ?case by simp
next
  case (Cons u us)
  show ?case
  proof (cases "journals_of (uid u) js = []")
    case True
    with Cons.prems have "insights_loop en us js acc s = (Inr out, s')" by simp
    from Cons.IH [OF this] show ?thesis by auto
  next
    case False
    then obtain j0 where j0: "j0 \<in> set js" "journal_uid j0 = JStr (uid u)"
      using journals_of_member by blast
    let ?d = "stringify_array (map journal_value (journals_of (uid u) js))"
    obtain r s1 where f: "fetchInsightsFromOpenAI en ?d s = (r, s1)"
      by (cases "fetchInsightsFromOpenAI en ?d s")
    show ?thesis
    proof (cases r)
      case (Inl e)
      with Cons.prems False f show ?thesis by (simp add: Let_def)
    next
      case (Inr v)
      show ?thesis
      proof (cases "truthy v")
        case True
        with Cons.prems False f Inr have
          "insights_loop en us js (acc @ [\<lparr>insight = v, insight_uid = uid u\<rparr>]) s1 = (Inr out, s')"
          by (simp add: Let_def)
        from Cons.IH [OF this] obtain new where
          new: "out = (acc @ [\<lparr>insight = v, insight_uid = uid u\<rparr>]) @ new"
            "subseq (map insight_uid new) (map uid us)"
            "\<forall>i\<in>set new. \<exists>j\<in>set js. journal_uid j = JStr (insight_uid i)"
          by blast
        show ?thesis
          apply (rule exI [of _ "\<lparr>insight = v, insight_uid = uid u\<rparr> # new"])
          using new j0 by auto
      next
        case False
        with Cons.prems \<open>journals_of (uid u) js \<noteq> []\<close> f Inr have
          "insights_loop en us js acc s1 = (Inr out, s')"
          by (simp add: Let_def)
        from Cons.IH [OF this] show ?thesis by auto
      qed
    qed
  qed
qed

lemma subseq_keeps_distinct: "subseq xs ys \<Longrightarrow> distinct ys \<Longrightarrow> distinct xs"
  by (auto simp: subseq_conv_nths)

lemma loop_store:
  "insights_loop en us js acc s = (r, s') \<Longrightarrow> users_insights s' = users_insights s"
proof (induction us arbitrary: acc s)
  case Nil
  then show ?case by simp
next
  case (Cons u us)
  show ?case
  proof (cases "journals_of (uid u) js = []")
    case True
    with Cons.prems Cons.IH show ?thesis by simp
  next
    case False
    let ?d = "stringify_array (map journal_value (journals_of (uid u) js))"
    obtain r1 s1 where f: "fetchInsightsFromOpenAI en ?d s = (r1, s1)"
      by (cases "fetchInsightsFromOpenAI en ?d s")
    then have st: "users_insights s1 = users_insights s"
      using fetch_requests by blast
    show ?thesis
    proof (cases r1)
      case (Inl e)
      with Cons.prems False f st show ?thesis by (auto simp: Let_def)
    next
      case (Inr v)
      with Cons.prems False f have
        "insights_loop en us js (acc @ [\<lparr>insight = v, insight_uid = uid u\<rparr>]) s1 = (r, s')
         \<or> insights_loop en us js acc s1 = (r, s')"
        by (auto simp: Let_def split: if_splits)
      with Cons.IH st show ?thesis by auto
    qed
  qed
qed

lemma generate_store:
  "generateUserInsights en s = (r, s') \<Longrightarrow> users_insights s' = users_insights s"
  by (auto simp: generateUserInsights_def split: sum.splits dest: loop_store)

lemma map_throwing_Inr:
  "map_throwing f xs = Inr ys \<longleftrightarrow> list_all2 (\<lambda>x y. f x = Inr y) xs ys"
proof (induction xs arbitrary: ys)
  case Nil
  show ?case by auto
next
  case (Cons x xs)
  show ?case
    by (cases ys) (auto simp: and_then_eq_Inr Cons.IH)
qed

lemma map_throwing_Inl:
  "map_throwing f xs = Inl e \<Longrightarrow> \<exists>x\<in>set xs. f x = Inl e"
proof (induction xs)
  case Nil
  then show ?case by simp
next
  case (Cons x xs)
  then show ?case
    by (cases "f x"; cases "map_throwing f xs") auto
qed

lemma map_throwing_fails:
  "x \<in> set xs \<Longrightarrow> f x = Inl e \<Longrightarrow> \<exists>e'. map_throwing f xs = Inl e'"
proof (induction xs)
  case Nil
  then show ?case by simp
next
  case (Cons y ys)
  then show ?case
    by (cases "f y"; cases "map_throwing f ys") auto
qed

lemma user_of_doc_Inr:
  "user_of_doc d = Inr u \<longleftrightarrow> toString_method (own_property d ''uid'') = Inr (uid u)"
  by (cases "toString_method (own_property d ''uid'')") (auto simp: user_of_doc_def)

lemma user_of_doc_Inl:
  "user_of_doc d = Inl e \<longleftrightarrow> toString_method (own_property d ''uid'') = Inl e"
  by (cases "toString_method (own_property d ''uid'')") (auto simp: user_of_doc_def)

lemma ToString_error:
  "ToString v = Inl e \<Longrightarrow> \<exists>m. e = TypeError m"
  "join_comma vs = Inl e \<Longrightarrow> \<exists>m. e = TypeError m"
proof (induction v and vs arbitrary: e and e rule: ToString_join_comma.induct)
  case (9 v vs)
  show ?case
  proof (cases "if v = JUndefined \<or> v = JNull then Inr [] else ToString v")
    case (Inl e')
    with "9.prems" have "e' = e" by simp
    with Inl "9.IH"(1) show ?thesis by (auto split: if_splits)
  next
    case (Inr t)
    with "9.prems" have "vs \<noteq> []" and "join_comma vs = Inl e"
      by (auto split: if_splits simp: and_then_def split: sum.splits)
    with "9.IH"(2) Inr show ?thesis by blast
  qed
qed (auto split: if_splits)

lemma toString_method_error:
  "toString_method v = Inl e \<Longrightarrow> \<exists>m. e = TypeError m"
  by (cases v) (auto simp: toString_method_def split: if_splits dest: ToString_error)

lemma loop_no_journals:
  "\<forall>u\<in>set users. \<forall>j\<in>set journals. journal_uid j \<noteq> JStr (uid u) \<Longrightarrow>
     insights_loop en users journals acc s = (Inr acc, s)"
proof (induction users)
  case Nil
  show ?case by simp
next
  case (Cons u users)
  then have "journals_of (uid u) journals = []"
    by (simp add: journals_of_none)
  with Cons show ?case by simp
qed

lemma stage_writes_batch:
  "stage_writes en k is acc = Inr b \<Longrightarrow>
     b = acc @ map (\<lambda>(n, i). \<lparr>doc_id = insight_uid i, doc_data = insight_document en n i\<rparr>)
                 (enumerate k is)"
proof (induction "is" arbitrary: k acc)
  case Nil
  then show ?case by simp
next
  case (Cons i rest)
  from Cons.prems have
    "stage_writes en (Suc k) rest
       (acc @ [\<lparr>doc_id = insight_uid i, doc_data = insight_document en k i\<rparr>]) = Inr b"
    by (simp add: Let_def split: option.splits)
  from Cons.IH [OF this] show ?case by simp
qed

lemma apply_writes_other:
  "k \<notin> doc_id ` set ws \<Longrightarrow> apply_writes ws m k = m k"
  by (induction ws arbitrary: m) auto

lemma apply_writes_dom:
  "dom (apply_writes ws m) = dom m \<union> doc_id ` set ws"
  by (induction ws arbitrary: m) auto

lemma apply_writes_distinct:
  "distinct (map doc_id ws) \<Longrightarrow> w \<in> set ws \<Longrightarrow>
     apply_writes ws m (doc_id w) = Some (doc_data w)"
proof (induction ws arbitrary: m)
  case Nil
  then show ?case by simp
next
  case (Cons x ws)
  show ?case
  proof (cases "w = x")
    case True
    with Cons.prems have "doc_id w \<notin> doc_id ` set ws" by auto
    then show ?thesis using True by (simp add: apply_writes_other)
  next
    case False
    with Cons.prems Cons.IH show ?thesis by auto
  qed
qed

lemma on_error_store: "on_error e s = (r, s') \<Longrightarrow> r = Inl failed_to_add \<and> users_insights s' = users_insights s"
  by (auto simp: on_error_def)

subsection \<open>The example inputs evaluated\<close>

lemma u1_text_eq: "stringify_array [journal_value u1_journal] = u1_text"
  by (simp add: stringify_array_def journal_value_def u1_journal_def u1_text_def dq_def
      json_quote_def json_escape_def)

lemma ex_users:
  "getAllUser (example_env [u1_doc, u2_doc] r c) = Inr [\<lparr>uid = ''u1''\<rparr>, \<lparr>uid = ''u2''\<rparr>]"
  by (simp add: getAllUser_def example_env_def user_of_doc_def u1_doc_def u2_doc_def
      own_property_def toString_method_def)

lemma ex_journals: "getUsersJournals (example_env us r c) = Inr [u1_journal]"
  by (simp add: getUsersJournals_def example_env_def journal_of_doc_def u1_journal_doc_def
      own_property_def u1_journal_def)

lemma ex_read_ok: "read_reply (Inr (chat_reply c)) = Inr c"
  by (simp add: read_reply_def chat_reply_def ok_def own_property_def)

lemma ex_read_429: "read_reply (Inr rate_limited) = Inl (Error ''HTTP 429: Rate limit reached'')"
  by (simp add: read_reply_def rate_limited_def ok_def own_property_def decimal.simps)

lemma ex_fetch_ok:
  "fetchInsightsFromOpenAI (example_env us (chat_reply c) k) j s
     = (Inr c, s\<lparr>requests := requests s @ [insight_request j]\<rparr>)"
  by (simp add: fetchInsightsFromOpenAI_def Let_def example_env_def ex_read_ok)

lemma ex_journals_of:
  "journals_of ''u1'' [u1_journal] = [u1_journal]" "journals_of ''u2'' [u1_journal] = []"
  by (simp_all add: journals_of_def u1_journal_def)

lemma ex_gen:
  "generateUserInsights (example_env [u1_doc, u2_doc] (chat_reply (JStr ''x'')) k) initial_state
     = (Inr [\<lparr>insight = JStr ''x'', insight_uid = ''u1''\<rparr>],
        initial_state\<lparr>requests := [insight_request u1_text]\<rparr>)"
  by (simp add: generateUserInsights_def ex_users ex_journals ex_journals_of
      ex_fetch_ok Let_def u1_text_eq initial_state_def)

lemma failing_users: "getAllUser failing_env = Inr ([] @ \<lparr>uid = ''u1''\<rparr> # [\<lparr>uid = ''u2''\<rparr>])"
  by (simp add: failing_env_def getAllUser_def example_env_def user_of_doc_def u1_doc_def
      u2_doc_def own_property_def toString_method_def)

lemma failing_journals:
  "getUsersJournals failing_env = Inr [u1_journal, journal_of_doc u2_journal_doc]"
  by (simp add: failing_env_def getUsersJournals_def example_env_def journal_of_doc_def
      u1_journal_doc_def own_property_def u1_journal_def)

lemma failing_journals_of:
  "journals_of ''u1'' [u1_journal, journal_of_doc u2_journal_doc] = [u1_journal]"
  "journals_of ''u2'' [u1_journal, journal_of_doc u2_journal_doc]
     = [journal_of_doc u2_journal_doc]"
  by (simp_all add: journals_of_def u1_journal_def journal_of_doc_def u2_journal_doc_def
      own_property_def)

lemma failing_fetch:
  "fetchInsightsFromOpenAI failing_env u1_text initial_state = (Inl rate_limit_error, after_failure)"
  by (simp add: fetchInsightsFromOpenAI_def Let_def failing_env_def example_env_def ex_read_429
      initial_state_def after_failure_def rate_limit_error_def)

section \<open>The Insight Generator\<close>

text \<open>
  C1. Whatever the users, the journals and the replies of the Insight Client, when
  \<open>generateUserInsights\<close> returns a list, the uids of its entries are a subsequence of
  the uids of the users in iteration order: every user contributes at most one entry, and
  users with distinct uids give entries with distinct uids. Every entry carries a uid
  that is the uid of at least one journal entry.
\<close>

theorem generateUserInsights_entries:
  assumes "getAllUser en = Inr users"
    and "getUsersJournals en = Inr journals"
    and "generateUserInsights en s = (Inr out, s')"
  shows "subseq (map insight_uid out) (map uid users)
       \<and> (distinct (map uid users) \<longrightarrow> distinct (map insight_uid out))
       \<and> (\<forall>i\<in>set out. \<exists>j\<in>set journals. journal_uid j = JStr (insight_uid i))"
proof -
  from assms have "insights_loop en users journals [] s = (Inr out, s')"
    by (simp add: generateUserInsights_def)
  from loop_output [OF this] have
    sub: "subseq (map insight_uid out) (map uid users)"
    and mem: "\<forall>i\<in>set out. \<exists>j\<in>set journals. journal_uid j = JStr (insight_uid i)"
    by auto
  from sub have "distinct (map uid users) \<longrightarrow> distinct (map insight_uid out)"
    by (auto intro: subseq_keeps_distinct)
  with sub mem show ?thesis by blast
qed

theorem generateUserInsights_entries_witness:
  "getAllUser (example_env [u1_doc, u2_doc] (chat_reply (JStr ''x'')) None)
     = Inr [\<lparr>uid = ''u1''\<rparr>, \<lparr>uid = ''u2''\<rparr>]
   \<and> getUsersJournals (example_env [u1_doc, u2_doc] (chat_reply (JStr ''x'')) None)
     = Inr [u1_journal]
   \<and> generateUserInsights (example_env [u1_doc, u2_doc] (chat_reply (JStr ''x'')) None)
        initial_state
     = (Inr [\<lparr>insight = JStr ''x'', insight_uid = ''u1''\<rparr>],
        initial_state\<lparr>requests := [insight_request u1_text]\<rparr>)
   \<and> subseq [''u1''] [''u1'', ''u2'']
   \<and> distinct [''u1'']
   \<and> journal_uid u1_journal = JStr ''u1''"
  using generateUserInsights_entries [OF ex_users ex_journals ex_gen] ex_users ex_journals ex_gen
  by (simp add: u1_journal_def)

text \<open>
  C2, as amended. Let \<^verbatim>\<open>u1\<close> be a user whose matching journals are exactly the entry of
  the example, among any users before and after it. When the loop reaches \<^verbatim>\<open>u1\<close> (the
  users before it were processed without an error), processing \<^verbatim>\<open>u1\<close> sends exactly
  one request, built from the JSON text of that one record. When the Insight Client's
  reply to it is truthy (a non-empty text) and the run returns an output list, that list
  contains the entry pairing \<^verbatim>\<open>u1\<close> with the reply unchanged; when \<^verbatim>\<open>u1\<close> is the only
  user, the output is that single entry.
\<close>

theorem single_journal_one_call:
  assumes "getAllUser en = Inr (before @ \<lparr>uid = ''u1''\<rparr> # later)"
    and "getUsersJournals en = Inr journals"
    and "journals_of ''u1'' journals = [u1_journal]"
    and "insights_loop en before journals [] s = (Inr found, s1)"
  shows "requests (snd (insights_loop en [\<lparr>uid = ''u1''\<rparr>] journals found s1))
           = requests s1 @ [insight_request u1_text]
       \<and> (\<forall>r s2 out s'.
             fetchInsightsFromOpenAI en u1_text s1 = (Inr r, s2) \<and> truthy r
             \<and> generateUserInsights en s = (Inr out, s')
             \<longrightarrow> \<lparr>insight = r, insight_uid = ''u1''\<rparr> \<in> set out)
       \<and> (before = [] \<and> later = [] \<longrightarrow>
            (\<forall>r s2. fetchInsightsFromOpenAI en u1_text s = (Inr r, s2) \<and> truthy r \<longrightarrow>
               generateUserInsights en s
                 = (Inr [\<lparr>insight = r, insight_uid = ''u1''\<rparr>], s2)))"
proof -
  obtain r0 s0 where f: "fetchInsightsFromOpenAI en u1_text s1 = (r0, s0)"
    by (cases "fetchInsightsFromOpenAI en u1_text s1")
  then have rq: "requests s0 = requests s1 @ [insight_request u1_text]"
    using fetch_requests by blast
  have step: "\<And>us. insights_loop en (\<lparr>uid = ''u1''\<rparr> # us) journals found s1 =
             (case r0 of Inl e \<Rightarrow> (Inl e, s0)
              | Inr v \<Rightarrow> if truthy v
                  then insights_loop en us journals
                         (found @ [\<lparr>insight = v, insight_uid = ''u1''\<rparr>]) s0
                  else insights_loop en us journals found s0)"
    using assms(3) f by (simp add: Let_def u1_text_eq split: sum.splits)
  have a: "requests (snd (insights_loop en [\<lparr>uid = ''u1''\<rparr>] journals found s1))
           = requests s1 @ [insight_request u1_text]"
    using rq by (simp add: step del: insights_loop.simps(2) split: sum.splits)
  have gen: "generateUserInsights en s
               = insights_loop en (\<lparr>uid = ''u1''\<rparr> # later) journals found s1"
    using assms(1,2,4)
    by (simp add: generateUserInsights_def loop_append [of en before] del: insights_loop.simps)
  have b: "\<forall>r s2 out s'.
             fetchInsightsFromOpenAI en u1_text s1 = (Inr r, s2) \<and> truthy r
             \<and> generateUserInsights en s = (Inr out, s')
             \<longrightarrow> \<lparr>insight = r, insight_uid = ''u1''\<rparr> \<in> set out"
  proof (intro allI impI)
    fix r s2 out s'
    assume h: "fetchInsightsFromOpenAI en u1_text s1 = (Inr r, s2) \<and> truthy r
             \<and> generateUserInsights en s = (Inr out, s')"
    with f have "r0 = Inr r" "s0 = s2" by simp_all
    with h gen have "insights_loop en later journals
                       (found @ [\<lparr>insight = r, insight_uid = ''u1''\<rparr>]) s2 = (Inr out, s')"
      by (auto simp: step simp del: insights_loop.simps(2))
    from loop_output [OF this] show "\<lparr>insight = r, insight_uid = ''u1''\<rparr> \<in> set out"
      by auto
  qed
  have c: "before = [] \<and> later = [] \<longrightarrow>
            (\<forall>r s2. fetchInsightsFromOpenAI en u1_text s = (Inr r, s2) \<and> truthy r \<longrightarrow>
               generateUserInsights en s
                 = (Inr [\<lparr>insight = r, insight_uid = ''u1''\<rparr>], s2))"
  proof (intro impI allI)
    fix r s2
    assume e: "before = [] \<and> later = []"
      and h: "fetchInsightsFromOpenAI en u1_text s = (Inr r, s2) \<and> truthy r"
    from e assms(4) have "found = []" "s1 = s" by simp_all
    with h f have "r0 = Inr r" "s0 = s2" by simp_all
    with step [of "[]"] h have
      "insights_loop en [\<lparr>uid = ''u1''\<rparr>] journals found s1
         = (Inr (found @ [\<lparr>insight = r, insight_uid = ''u1''\<rparr>]), s2)"
      by (simp del: insights_loop.simps(2))
    with e gen \<open>found = []\<close> show "generateUserInsights en s
                 = (Inr [\<lparr>insight = r, insight_uid = ''u1''\<rparr>], s2)"
      by simp
  qed
  from a b c show ?thesis by blast
qed

theorem single_journal_one_call_witness:
  "getAllUser (example_env [u1_doc, u2_doc] (chat_reply (JStr ''x'')) None)
     = Inr [\<lparr>uid = ''u1''\<rparr>, \<lparr>uid = ''u2''\<rparr>]
   \<and> getUsersJournals (example_env [u1_doc, u2_doc] (chat_reply (JStr ''x'')) None)
     = Inr [u1_journal]
   \<and> journals_of ''u1'' [u1_journal] = [u1_journal]
   \<and> fetchInsightsFromOpenAI (example_env [u1_doc, u2_doc] (chat_reply (JStr ''x'')) None)
        u1_text initial_state
     = (Inr (JStr ''x''), initial_state\<lparr>requests := [insight_request u1_text]\<rparr>)
   \<and> truthy (JStr ''x'')
   \<and> generateUserInsights (example_env [u1_doc, u2_doc] (chat_reply (JStr ''x'')) None)
        initial_state
     = (Inr [\<lparr>insight = JStr ''x'', insight_uid = ''u1''\<rparr>],
        initial_state\<lparr>requests := [insight_request u1_text]\<rparr>)
   \<and> \<lparr>insight = JStr ''x'', insight_uid = ''u1''\<rparr>
       \<in> set [\<lparr>insight = JStr ''x'', insight_uid = ''u1''\<rparr>]
   \<and> requests (snd (insights_loop
         (example_env [u1_doc, u2_doc] (chat_reply (JStr ''x'')) None)
         [\<lparr>uid = ''u1''\<rparr>] [u1_journal] [] initial_state))
     = requests initial_state @ [insight_request u1_text]"
proof -
  let ?en = "example_env [u1_doc, u2_doc] (chat_reply (JStr ''x'')) None"
  let ?s2 = "initial_state\<lparr>requests := [insight_request u1_text]\<rparr>"
  have u: "getAllUser ?en = Inr ([] @ \<lparr>uid = ''u1''\<rparr> # [\<lparr>uid = ''u2''\<rparr>])"
    by (simp add: ex_users)
  have j: "getUsersJournals ?en = Inr [u1_journal]"
    by (rule ex_journals)
  have m: "journals_of ''u1'' [u1_journal] = [u1_journal]"
    by (rule ex_journals_of)
  have l: "insights_loop ?en [] [u1_journal] [] initial_state = (Inr [], initial_state)"
    by simp
  have f: "fetchInsightsFromOpenAI ?en u1_text initial_state = (Inr (JStr ''x''), ?s2)"
    by (simp add: ex_fetch_ok initial_state_def)
  have t: "truthy (JStr ''x'')"
    by simp
  note T = single_journal_one_call [OF u j m l]
  from T have a: "requests (snd (insights_loop ?en [\<lparr>uid = ''u1''\<rparr>] [u1_journal] []
                      initial_state)) = requests initial_state @ [insight_request u1_text]"
    by (rule conjunct1)
  from T have b: "\<forall>r s2 out s'.
             fetchInsightsFromOpenAI ?en u1_text initial_state = (Inr r, s2) \<and> truthy r
             \<and> generateUserInsights ?en initial_state = (Inr out, s')
             \<longrightarrow> \<lparr>insight = r, insight_uid = ''u1''\<rparr> \<in> set out"
    by blast
  have g: "generateUserInsights ?en initial_state
     = (Inr [\<lparr>insight = JStr ''x'', insight_uid = ''u1''\<rparr>], ?s2)"
    by (rule ex_gen)
  from b f t g have "\<lparr>insight = JStr ''x'', insight_uid = ''u1''\<rparr>
       \<in> set [\<lparr>insight = JStr ''x'', insight_uid = ''u1''\<rparr>]"
    by blast
  with ex_users [of "chat_reply (JStr ''x'')" None] j m f t g a show ?thesis by blast
qed

text \<open>
  The claim without the condition on the reply fails: the client is called once and
  replies with the empty text, and the output has no entry for \<^verbatim>\<open>u1\<close>, because of the
  test \<^verbatim>\<open>if (response)\<close>.
\<close>

theorem empty_reply_gives_no_entry:
  "getAllUser (example_env [u1_doc] (chat_reply (JStr [])) None) = Inr [\<lparr>uid = ''u1''\<rparr>]
   \<and> getUsersJournals (example_env [u1_doc] (chat_reply (JStr [])) None) = Inr [u1_journal]
   \<and> fetchInsightsFromOpenAI (example_env [u1_doc] (chat_reply (JStr [])) None)
        u1_text initial_state
     = (Inr (JStr []), initial_state\<lparr>requests := [insight_request u1_text]\<rparr>)
   \<and> generateUserInsights (example_env [u1_doc] (chat_reply (JStr [])) None) initial_state
     = (Inr [], initial_state\<lparr>requests := [insight_request u1_text]\<rparr>)"
proof -
  let ?en = "example_env [u1_doc] (chat_reply (JStr [])) None"
  have u: "getAllUser ?en = Inr [\<lparr>uid = ''u1''\<rparr>]"
    by (simp add: getAllUser_def example_env_def user_of_doc_def u1_doc_def
        own_property_def toString_method_def)
  have f: "fetchInsightsFromOpenAI ?en u1_text initial_state
             = (Inr (JStr []), initial_state\<lparr>requests := [insight_request u1_text]\<rparr>)"
    by (simp add: ex_fetch_ok initial_state_def)
  have g: "generateUserInsights ?en initial_state
     = (Inr [], initial_state\<lparr>requests := [insight_request u1_text]\<rparr>)"
    by (simp add: generateUserInsights_def u ex_journals ex_journals_of Let_def u1_text_eq f)
  from u f g ex_journals [of "[u1_doc]" "chat_reply (JStr [])" None] show ?thesis by simp
qed

text \<open>
  C5. A user whose uid is the uid of no journal entry is skipped by the loop: the run
  with that user in the list is the run without it, result and state alike, so no request
  is sent for it, nothing is logged and no error is raised; processing that user alone
  leaves the list built so far and the state as they were, and no entry of the output
  carries its uid.
\<close>

theorem user_without_journals_skipped:
  assumes "\<forall>j\<in>set journals. journal_uid j \<noteq> JStr (uid u)"
  shows "insights_loop en (before @ u # later) journals acc s
           = insights_loop en (before @ later) journals acc s
       \<and> insights_loop en [u] journals acc s = (Inr acc, s)
       \<and> (\<forall>out s'. insights_loop en (before @ u # later) journals [] s = (Inr out, s')
             \<longrightarrow> uid u \<notin> insight_uid ` set out)"
proof -
  have none: "journals_of (uid u) journals = []"
    using assms by (rule journals_of_none)
  have skip: "\<And>a t. insights_loop en (u # later) journals a t = insights_loop en later journals a t"
    using none by simp
  have "insights_loop en (before @ u # later) journals acc s
           = insights_loop en (before @ later) journals acc s"
    by (simp add: loop_append [of en before] skip del: insights_loop.simps
        split: prod.splits sum.splits)
  moreover have "insights_loop en [u] journals acc s = (Inr acc, s)"
    using none by simp
  moreover have "\<forall>out s'. insights_loop en (before @ u # later) journals [] s = (Inr out, s')
             \<longrightarrow> uid u \<notin> insight_uid ` set out"
  proof (intro allI impI)
    fix out s'
    assume "insights_loop en (before @ u # later) journals [] s = (Inr out, s')"
    from loop_output [OF this] have
      "\<forall>i\<in>set out. \<exists>j\<in>set journals. journal_uid j = JStr (insight_uid i)"
      by auto
    with assms show "uid u \<notin> insight_uid ` set out" by auto
  qed
  ultimately show ?thesis by blast
qed

theorem user_without_journals_skipped_witness:
  "journal_uid u1_journal \<noteq> JStr (uid \<lparr>uid = ''u2''\<rparr>)
   \<and> insights_loop (example_env [u1_doc, u2_doc] (chat_reply (JStr ''x'')) None)
        [\<lparr>uid = ''u1''\<rparr>, \<lparr>uid = ''u2''\<rparr>] [u1_journal] [] initial_state
     = insights_loop (example_env [u1_doc, u2_doc] (chat_reply (JStr ''x'')) None)
        [\<lparr>uid = ''u1''\<rparr>] [u1_journal] [] initial_state
   \<and> insights_loop (example_env [u1_doc, u2_doc] (chat_reply (JStr ''x'')) None)
        [\<lparr>uid = ''u2''\<rparr>] [u1_journal] [] initial_state
     = (Inr [], initial_state)"
proof -
  have h: "\<forall>j\<in>set [u1_journal]. journal_uid j \<noteq> JStr (uid \<lparr>uid = ''u2''\<rparr>)"
    by (simp add: u1_journal_def)
  from user_without_journals_skipped [OF h, of _ "[\<lparr>uid = ''u1''\<rparr>]" "[]" "[]" initial_state] h
  show ?thesis by simp
qed

text \<open>
  C3. When the users before \<open>u\<close> have been processed and the Insight Client raises \<open>e\<close> for
  \<open>u\<close>, \<open>generateUserInsights\<close> raises \<open>e\<close> in the state the failed call left: the
  request for \<open>u\<close> is the last one sent, so no user after \<open>u\<close> is processed. \<open>addInsights\<close>
  then fails with the fixed internal error, which does not depend on \<open>e\<close>; \<open>e\<close> appears
  only in the two console lines, and the insights collection is unchanged.
\<close>

theorem client_error_aborts:
  assumes "getAllUser en = Inr (before @ u # later)"
    and "getUsersJournals en = Inr journals"
    and "insights_loop en before journals [] s = (Inr found, s1)"
    and "journals_of (uid u) journals \<noteq> []"
    and "fetchInsightsFromOpenAI en
           (stringify_array (map journal_value (journals_of (uid u) journals))) s1 = (Inl e, s2)"
  shows "generateUserInsights en s = (Inl e, s2)
       \<and> requests s2 = requests s1 @
           [insight_request (stringify_array (map journal_value (journals_of (uid u) journals)))]
       \<and> console s2 = console s1 @ [(''Error fetching insights:'', e)]
       \<and> addInsights en s =
           (Inl (HttpsError ''internal'' ''Failed to add insights.''),
            s2\<lparr>console := console s2 @ [(''Error adding insights:'', e)]\<rparr>)
       \<and> users_insights s2 = users_insights s"
proof -
  have step: "insights_loop en (u # later) journals found s1 = (Inl e, s2)"
    using assms(4,5) by (simp add: Let_def)
  have gen: "generateUserInsights en s = (Inl e, s2)"
    using assms(1,2,3) step
    by (simp add: generateUserInsights_def loop_append [of en before] del: insights_loop.simps)
  have "addInsights en s =
           (Inl (HttpsError ''internal'' ''Failed to add insights.''),
            s2\<lparr>console := console s2 @ [(''Error adding insights:'', e)]\<rparr>)"
    by (simp add: addInsights_def gen on_error_def failed_to_add_def)
  moreover have "users_insights s2 = users_insights s"
    using gen by (rule generate_store)
  ultimately show ?thesis
    using gen fetch_requests [OF assms(5)] fetch_console [OF assms(5)] by simp
qed

theorem client_error_aborts_witness:
  "getAllUser failing_env = Inr ([] @ \<lparr>uid = ''u1''\<rparr> # [\<lparr>uid = ''u2''\<rparr>])
   \<and> getUsersJournals failing_env = Inr [u1_journal, journal_of_doc u2_journal_doc]
   \<and> journals_of ''u2'' [u1_journal, journal_of_doc u2_journal_doc] \<noteq> []
   \<and> fetchInsightsFromOpenAI failing_env u1_text initial_state
        = (Inl rate_limit_error, after_failure)
   \<and> generateUserInsights failing_env initial_state = (Inl rate_limit_error, after_failure)
   \<and> requests after_failure = [insight_request u1_text]
   \<and> addInsights failing_env initial_state =
        (Inl (HttpsError ''internal'' ''Failed to add insights.''),
         after_failure\<lparr>console := [(''Error fetching insights:'', rate_limit_error),
                                   (''Error adding insights:'', rate_limit_error)]\<rparr>)"
proof -
  have l: "insights_loop failing_env [] [u1_journal, journal_of_doc u2_journal_doc] []
             initial_state = (Inr [], initial_state)"
    by simp
  have n: "journals_of (uid \<lparr>uid = ''u1''\<rparr>) [u1_journal, journal_of_doc u2_journal_doc] \<noteq> []"
    by (simp add: failing_journals_of)
  have f: "fetchInsightsFromOpenAI failing_env
             (stringify_array (map journal_value
                (journals_of (uid \<lparr>uid = ''u1''\<rparr>)
                   [u1_journal, journal_of_doc u2_journal_doc])))
             initial_state = (Inl rate_limit_error, after_failure)"
    by (simp add: failing_journals_of u1_text_eq failing_fetch)
  from client_error_aborts [OF failing_users failing_journals l n f]
    failing_users failing_journals failing_fetch
  show ?thesis
    by (simp add: failing_journals_of after_failure_def initial_state_def)
qed

section \<open>The Insight Client\<close>




text \<open>
  C7. For every journals text, \<open>fetchInsightsFromOpenAI\<close> sends one request whose body
  is the JSON of the fixed model name, a single user-role message with the journals
  text embedded unchanged between the two fixed parts of the prompt, and a budget of
  3000 tokens. When the reply has a success status and \<^verbatim>\<open>choices[0].message.content\<close>
  can be read, that value is returned as it is, whatever it is.
\<close>

theorem request_fixed_reply_raw:
  "requests (snd (fetchInsightsFromOpenAI en journals s))
     = requests s @ [insight_request journals]
   \<and> body (insight_request journals) =
       stringify_object
         [(''model'', JStr ''gpt-3.5-turbo''),
          (''messages'',
             JArr [JObj [(''role'', JStr ''user''),
                         (''content'', JStr (prompt_before @ journals @ prompt_after))]]),
          (''max_tokens'', JNum ''3000'')]
   \<and> (fetch_reply en (length (requests s)) (insight_request journals) = Inr resp
        \<and> ok resp
        \<and> json resp = Inr data
        \<and> get_field data ''choices'' = Inr choices
        \<and> get_index0 choices = Inr choice
        \<and> get_field choice ''message'' = Inr message
        \<and> get_field message ''content'' = Inr reply
      \<longrightarrow> fetchInsightsFromOpenAI en journals s =
            (Inr reply, s\<lparr>requests := requests s @ [insight_request journals]\<rparr>))"
proof (intro conjI impI)
  show "requests (snd (fetchInsightsFromOpenAI en journals s))
     = requests s @ [insight_request journals]"
    using fetch_requests [of en journals s] by (cases "fetchInsightsFromOpenAI en journals s") simp
next
  show "body (insight_request journals) =
       stringify_object
         [(''model'', JStr ''gpt-3.5-turbo''),
          (''messages'',
             JArr [JObj [(''role'', JStr ''user''),
                         (''content'', JStr (prompt_before @ journals @ prompt_after))]]),
          (''max_tokens'', JNum ''3000'')]"
    by (simp add: insight_request_def request_payload_def prompt_def)
next
  assume "fetch_reply en (length (requests s)) (insight_request journals) = Inr resp
        \<and> ok resp
        \<and> json resp = Inr data
        \<and> get_field data ''choices'' = Inr choices
        \<and> get_index0 choices = Inr choice
        \<and> get_field choice ''message'' = Inr message
        \<and> get_field message ''content'' = Inr reply"
  then have "read_reply (fetch_reply en (length (requests s)) (insight_request journals))
               = Inr reply"
    by (simp add: read_reply_def)
  then show "fetchInsightsFromOpenAI en journals s =
            (Inr reply, s\<lparr>requests := requests s @ [insight_request journals]\<rparr>)"
    by (simp add: fetchInsightsFromOpenAI_def Let_def)
qed

theorem request_fixed_reply_raw_witness:
  "fetch_reply (example_env [u1_doc] (chat_reply unformatted) None)
       (length (requests initial_state)) (insight_request u1_text)
     = Inr (chat_reply unformatted)
   \<and> ok (chat_reply unformatted)
   \<and> json (chat_reply unformatted)
       = Inr (JObj [(''choices'', JArr [JObj [(''message'', JObj [(''content'', unformatted)])]])])
   \<and> get_field (JObj [(''choices'', JArr [JObj [(''message'', JObj [(''content'', unformatted)])]])])
        ''choices'' = Inr (JArr [JObj [(''message'', JObj [(''content'', unformatted)])]])
   \<and> get_index0 (JArr [JObj [(''message'', JObj [(''content'', unformatted)])]])
       = Inr (JObj [(''message'', JObj [(''content'', unformatted)])])
   \<and> get_field (JObj [(''message'', JObj [(''content'', unformatted)])]) ''message''
       = Inr (JObj [(''content'', unformatted)])
   \<and> get_field (JObj [(''content'', unformatted)]) ''content'' = Inr unformatted
   \<and> fetchInsightsFromOpenAI (example_env [u1_doc] (chat_reply unformatted) None)
        u1_text initial_state
       = (Inr unformatted, initial_state\<lparr>requests := [insight_request u1_text]\<rparr>)"
proof -
  note T = request_fixed_reply_raw
      [where en = "example_env [u1_doc] (chat_reply unformatted) None"
         and journals = u1_text and s = initial_state
         and resp = "chat_reply unformatted"
         and data = "JObj [(''choices'', JArr [JObj [(''message'', JObj [(''content'', unformatted)])]])]"
         and choices = "JArr [JObj [(''message'', JObj [(''content'', unformatted)])]]"
         and choice = "JObj [(''message'', JObj [(''content'', unformatted)])]"
         and message = "JObj [(''content'', unformatted)]"
         and reply = unformatted]
  have hyp: "fetch_reply (example_env [u1_doc] (chat_reply unformatted) None)
       (length (requests initial_state)) (insight_request u1_text)
     = Inr (chat_reply unformatted)
   \<and> ok (chat_reply unformatted)
   \<and> json (chat_reply unformatted)
       = Inr (JObj [(''choices'', JArr [JObj [(''message'', JObj [(''content'', unformatted)])]])])
   \<and> get_field (JObj [(''choices'', JArr [JObj [(''message'', JObj [(''content'', unformatted)])]])])
        ''choices'' = Inr (JArr [JObj [(''message'', JObj [(''content'', unformatted)])]])
   \<and> get_index0 (JArr [JObj [(''message'', JObj [(''content'', unformatted)])]])
       = Inr (JObj [(''message'', JObj [(''content'', unformatted)])])
   \<and> get_field (JObj [(''message'', JObj [(''content'', unformatted)])]) ''message''
       = Inr (JObj [(''content'', unformatted)])
   \<and> get_field (JObj [(''content'', unformatted)]) ''content'' = Inr unformatted"
    by (simp add: example_env_def chat_reply_def ok_def own_property_def)
  have "fetchInsightsFromOpenAI (example_env [u1_doc] (chat_reply unformatted) None)
        u1_text initial_state
       = (Inr unformatted, initial_state\<lparr>requests := [insight_request u1_text]\<rparr>)"
    using mp [OF conjunct2 [OF conjunct2 [OF T]] hyp] by (simp add: initial_state_def)
  with hyp show ?thesis by blast
qed

section \<open>The User Lister\<close>

text \<open>
  C8. Given the documents of the users collection, \<open>getAllUser\<close> returns a list of users
  exactly when that list has one record per document, in the same order, whose uid is
  the result of \<^verbatim>\<open>toString()\<close> on the document's stored uid: no document is left out.
\<close>

theorem getAllUser_one_record_per_document:
  assumes "app_users en = Inr docs"
  shows "getAllUser en = Inr users \<longleftrightarrow>
           length users = length docs
           \<and> (\<forall>n<length docs.
                 toString_method (own_property (docs ! n) ''uid'') = Inr (uid (users ! n)))"
  using assms
  by (auto simp: getAllUser_def map_throwing_Inr user_of_doc_Inr list_all2_conv_all_nth)

theorem getAllUser_one_record_per_document_witness:
  "app_users (example_env [u1_doc, [(''uid'', JNum ''42'')]] rate_limited None)
     = Inr [u1_doc, [(''uid'', JNum ''42'')]]
   \<and> getAllUser (example_env [u1_doc, [(''uid'', JNum ''42'')]] rate_limited None)
       = Inr [\<lparr>uid = ''u1''\<rparr>, \<lparr>uid = ''42''\<rparr>]
   \<and> length [\<lparr>uid = ''u1''\<rparr>, \<lparr>uid = ''42''\<rparr>] = length [u1_doc, [(''uid'', JNum ''42'')]]
   \<and> toString_method (own_property u1_doc ''uid'') = Inr ''u1''
   \<and> toString_method (own_property [(''uid'', JNum ''42'')] ''uid'') = Inr ''42''"
proof -
  let ?en = "example_env [u1_doc, [(''uid'', JNum ''42'')]] rate_limited None"
  have a: "app_users ?en = Inr [u1_doc, [(''uid'', JNum ''42'')]]"
    by (simp add: example_env_def)
  have g: "getAllUser ?en = Inr [\<lparr>uid = ''u1''\<rparr>, \<lparr>uid = ''42''\<rparr>]"
    by (simp add: getAllUser_def example_env_def user_of_doc_def u1_doc_def
        own_property_def toString_method_def)
  from iffD1 [OF getAllUser_one_record_per_document [OF a] g]
  have len: "length [\<lparr>uid = ''u1''\<rparr>, \<lparr>uid = ''42''\<rparr>] = length [u1_doc, [(''uid'', JNum ''42'')]]"
    and nth: "\<forall>n<length [u1_doc, [(''uid'', JNum ''42'')]].
          toString_method (own_property ([u1_doc, [(''uid'', JNum ''42'')]] ! n) ''uid'')
            = Inr (uid ([\<lparr>uid = ''u1''\<rparr>, \<lparr>uid = ''42''\<rparr>] ! n))"
    by blast+
  from nth [rule_format, of 0] nth [rule_format, of 1]
  have "toString_method (own_property u1_doc ''uid'') = Inr ''u1''"
    and "toString_method (own_property [(''uid'', JNum ''42'')] ''uid'') = Inr ''42''"
    by simp_all
  with a g len show ?thesis by blast
qed

text \<open>
  C9. If some document of the users collection has no \<^verbatim>\<open>uid\<close> field, the coercion of
  that document raises the type error of \<^verbatim>\<open>toString\<close> on \<^verbatim>\<open>undefined\<close>, \<open>getAllUser\<close>
  raises a type error instead of returning a list, and \<open>addInsights\<close> fails with the fixed
  internal error, the type error being logged.
\<close>

theorem missing_uid_aborts:
  assumes "app_users en = Inr docs"
    and "d \<in> set docs"
    and "map_of d ''uid'' = None"
  shows "toString_method (own_property d ''uid'') =
           Inl (TypeError (''Cannot read properties of undefined (reading ''
                           @ quoted ''toString'' @ '')''))
       \<and> (\<exists>m. getAllUser en = Inl (TypeError m)
              \<and> generateUserInsights en s = (Inl (TypeError m), s)
              \<and> addInsights en s =
                  (Inl (HttpsError ''internal'' ''Failed to add insights.''),
                   s\<lparr>console := console s @ [(''Error adding insights:'', TypeError m)]\<rparr>))"
proof -
  have u: "toString_method (own_property d ''uid'') =
           Inl (TypeError (''Cannot read properties of undefined (reading ''
                           @ quoted ''toString'' @ '')''))"
    using assms(3) by (simp add: own_property_def toString_method_def)
  then have "user_of_doc d = Inl (TypeError (''Cannot read properties of undefined (reading ''
                           @ quoted ''toString'' @ '')''))"
    by (simp add: user_of_doc_Inl)
  with assms(2) have "\<exists>e'. map_throwing user_of_doc docs = Inl e'"
    by (rule map_throwing_fails)
  then obtain e where e: "map_throwing user_of_doc docs = Inl e" ..
  from map_throwing_Inl [OF e] obtain d' where "user_of_doc d' = Inl e" ..
  then have "toString_method (own_property d' ''uid'') = Inl e"
    by (simp add: user_of_doc_Inl)
  from toString_method_error [OF this] obtain m where m: "e = TypeError m" ..
  have g: "getAllUser en = Inl (TypeError m)"
    using assms(1) e m by (simp add: getAllUser_def)
  then have gen: "generateUserInsights en s = (Inl (TypeError m), s)"
    by (simp add: generateUserInsights_def)
  then have "addInsights en s =
                  (Inl (HttpsError ''internal'' ''Failed to add insights.''),
                   s\<lparr>console := console s @ [(''Error adding insights:'', TypeError m)]\<rparr>)"
    by (simp add: addInsights_def on_error_def failed_to_add_def)
  with u g gen show ?thesis by blast
qed

theorem missing_uid_aborts_witness:
  "app_users (example_env [u1_doc, no_uid_doc] (chat_reply (JStr ''x'')) None)
     = Inr [u1_doc, no_uid_doc]
   \<and> no_uid_doc \<in> set [u1_doc, no_uid_doc]
   \<and> map_of no_uid_doc ''uid'' = None
   \<and> getAllUser (example_env [u1_doc, no_uid_doc] (chat_reply (JStr ''x'')) None)
       = Inl undefined_toString
   \<and> addInsights (example_env [u1_doc, no_uid_doc] (chat_reply (JStr ''x'')) None) initial_state
       = (Inl (HttpsError ''internal'' ''Failed to add insights.''),
          initial_state\<lparr>console := [(''Error adding insights:'', undefined_toString)]\<rparr>)"
proof -
  let ?en = "example_env [u1_doc, no_uid_doc] (chat_reply (JStr ''x'')) None"
  have a: "app_users ?en = Inr [u1_doc, no_uid_doc]"
    by (simp add: example_env_def)
  have b: "no_uid_doc \<in> set [u1_doc, no_uid_doc]"
    by simp
  have c: "map_of no_uid_doc ''uid'' = None"
    by (simp add: no_uid_doc_def)
  have g: "getAllUser ?en = Inl undefined_toString"
    by (simp add: getAllUser_def example_env_def user_of_doc_def u1_doc_def no_uid_doc_def
        own_property_def toString_method_def undefined_toString_def)
  from missing_uid_aborts [OF a b c, of initial_state] g
  have "addInsights ?en initial_state
       = (Inl (HttpsError ''internal'' ''Failed to add insights.''),
          initial_state\<lparr>console := [(''Error adding insights:'', undefined_toString)]\<rparr>)"
    by (auto simp: initial_state_def)
  with a b c g show ?thesis by blast
qed

section \<open>The Insight Writer\<close>

text \<open>
  C4. The insights collection changes only through the one commit of the one batch,
  which Firestore applies whole or not at all. So after \<open>addInsights\<close> either the call
  failed with the fixed internal error and the collection is as it was, or it succeeded
  and the collection is the old one with the whole batch applied, the batch holding one
  write per computed insight, in order, keyed by its uid (so every insight's uid has a
  document, and with distinct uids each document is the one staged for it). When the
  commit is rejected with \<open>e\<close>, the caller gets the fixed internal error only; \<open>e\<close> goes to
  the console.
\<close>

theorem batch_write_all_or_nothing:
  "(addInsights en s = (r, s') \<longrightarrow>
      (r = Inl (HttpsError ''internal'' ''Failed to add insights.'')
         \<and> users_insights s' = users_insights s)
      \<or> (\<exists>out s1 batch.
            generateUserInsights en s = (Inr out, s1)
            \<and> stage_writes en 0 out [] = Inr batch
            \<and> r = Inr (JObj [(''message'', JStr ''Insights added successfully.'')])
            \<and> length batch = length out
            \<and> (\<forall>k<length out.
                  batch ! k = \<lparr>doc_id = insight_uid (out ! k),
                               doc_data = [(''insights'', insight (out ! k)),
                                           (''uid'', JStr (insight_uid (out ! k))),
                                           (''createdAt'', JNum (now_millis en k))]\<rparr>)
            \<and> users_insights s' = apply_writes batch (users_insights s)
            \<and> insight_uid ` set out \<subseteq> dom (users_insights s')
            \<and> (distinct (map insight_uid out) \<longrightarrow>
                 (\<forall>k<length out.
                    users_insights s' (insight_uid (out ! k)) = Some (doc_data (batch ! k))))))
   \<and> (generateUserInsights en s = (Inr out, s1)
        \<and> stage_writes en 0 out [] = Inr batch
        \<and> commit_rejects en batch = Some e \<longrightarrow>
      addInsights en s =
        (Inl (HttpsError ''internal'' ''Failed to add insights.''),
         s1\<lparr>console := console s1 @ [(''Error adding insights:'', e)]\<rparr>)
      \<and> users_insights s1 = users_insights s)"
proof (intro conjI impI)
  assume run: "addInsights en s = (r, s')"
  obtain g s1 where gen: "generateUserInsights en s = (g, s1)"
    by (cases "generateUserInsights en s")
  then have st: "users_insights s1 = users_insights s"
    by (rule generate_store)
  let ?fail = "r = Inl (HttpsError ''internal'' ''Failed to add insights.'')
         \<and> users_insights s' = users_insights s"
  show "?fail \<or> (\<exists>out s1 batch.
            generateUserInsights en s = (Inr out, s1)
            \<and> stage_writes en 0 out [] = Inr batch
            \<and> r = Inr (JObj [(''message'', JStr ''Insights added successfully.'')])
            \<and> length batch = length out
            \<and> (\<forall>k<length out.
                  batch ! k = \<lparr>doc_id = insight_uid (out ! k),
                               doc_data = [(''insights'', insight (out ! k)),
                                           (''uid'', JStr (insight_uid (out ! k))),
                                           (''createdAt'', JNum (now_millis en k))]\<rparr>)
            \<and> users_insights s' = apply_writes batch (users_insights s)
            \<and> insight_uid ` set out \<subseteq> dom (users_insights s')
            \<and> (distinct (map insight_uid out) \<longrightarrow>
                 (\<forall>k<length out.
                    users_insights s' (insight_uid (out ! k)) = Some (doc_data (batch ! k)))))"
  proof (cases g)
    case (Inl e)
    with run gen st have ?fail
      by (auto simp: addInsights_def dest: on_error_store simp: failed_to_add_def)
    then show ?thesis ..
  next
    case (Inr out)
    show ?thesis
    proof (cases "stage_writes en 0 out []")
      case (Inl e)
      with run gen st Inr have ?fail
        by (auto simp: addInsights_def dest: on_error_store simp: failed_to_add_def)
      then show ?thesis ..
    next
      case stage: (Inr batch)
      show ?thesis
      proof (cases "commit_rejects en batch")
        case (Some e)
        with run gen st Inr stage have ?fail
          by (auto simp: addInsights_def dest: on_error_store simp: failed_to_add_def)
        then show ?thesis ..
      next
        case None
        from stage_writes_batch [OF stage] have b:
          "batch = map (\<lambda>(n, i). \<lparr>doc_id = insight_uid i, doc_data = insight_document en n i\<rparr>)
                     (enumerate 0 out)"
          by simp
        have len: "length batch = length out"
          by (simp add: b)
        have nth: "\<forall>k<length out.
                  batch ! k = \<lparr>doc_id = insight_uid (out ! k),
                               doc_data = [(''insights'', insight (out ! k)),
                                           (''uid'', JStr (insight_uid (out ! k))),
                                           (''createdAt'', JNum (now_millis en k))]\<rparr>"
          by (simp add: b nth_enumerate_eq insight_document_def)
        have ids: "map doc_id batch = map insight_uid out"
          using len nth by (simp add: list_eq_iff_nth_eq)
        from run gen Inr stage None have
          res: "r = Inr (JObj [(''message'', JStr ''Insights added successfully.'')])"
          and fin: "users_insights s' = apply_writes batch (users_insights s)"
          by (auto simp: addInsights_def added_def st)
        have "doc_id ` set batch = insight_uid ` set out"
          using ids by (metis set_map)
        then have dom: "insight_uid ` set out \<subseteq> dom (users_insights s')"
          by (simp add: fin apply_writes_dom)
        have look: "distinct (map insight_uid out) \<longrightarrow>
                 (\<forall>k<length out.
                    users_insights s' (insight_uid (out ! k)) = Some (doc_data (batch ! k)))"
        proof (intro impI allI)
          fix k
          assume d: "distinct (map insight_uid out)" and k: "k < length out"
          then have "distinct (map doc_id batch)" by (simp add: ids)
          moreover have "batch ! k \<in> set batch" using k len by simp
          ultimately have "apply_writes batch (users_insights s) (doc_id (batch ! k))
                             = Some (doc_data (batch ! k))"
            by (rule apply_writes_distinct)
          moreover have "doc_id (batch ! k) = insight_uid (out ! k)"
            using nth k by simp
          ultimately show "users_insights s' (insight_uid (out ! k)) = Some (doc_data (batch ! k))"
            by (simp add: fin)
        qed
        from gen Inr stage res len nth fin dom look show ?thesis by blast
      qed
    qed
  qed
next
  assume h: "generateUserInsights en s = (Inr out, s1)
        \<and> stage_writes en 0 out [] = Inr batch
        \<and> commit_rejects en batch = Some e"
  then show "addInsights en s =
        (Inl (HttpsError ''internal'' ''Failed to add insights.''),
         s1\<lparr>console := console s1 @ [(''Error adding insights:'', e)]\<rparr>)"
    by (simp add: addInsights_def on_error_def failed_to_add_def)
  from h show "users_insights s1 = users_insights s"
    using generate_store by blast
qed

theorem batch_write_all_or_nothing_witness:
  "generateUserInsights (example_env [u1_doc, u2_doc] (chat_reply (JStr ''x'')) (Some unavailable))
       initial_state
     = (Inr [u1_insight], initial_state\<lparr>requests := [insight_request u1_text]\<rparr>)
   \<and> stage_writes (example_env [u1_doc, u2_doc] (chat_reply (JStr ''x'')) (Some unavailable))
       0 [u1_insight] [] = Inr [u1_write]
   \<and> commit_rejects (example_env [u1_doc, u2_doc] (chat_reply (JStr ''x'')) (Some unavailable))
       [u1_write] = Some unavailable
   \<and> addInsights (example_env [u1_doc, u2_doc] (chat_reply (JStr ''x'')) (Some unavailable))
       initial_state
     = (Inl (HttpsError ''internal'' ''Failed to add insights.''),
        initial_state\<lparr>requests := [insight_request u1_text],
                      console := [(''Error adding insights:'', unavailable)]\<rparr>)
   \<and> users_insights (initial_state\<lparr>requests := [insight_request u1_text]\<rparr>)
       = users_insights initial_state"
proof -
  let ?en = "example_env [u1_doc, u2_doc] (chat_reply (JStr ''x'')) (Some unavailable)"
  let ?s1 = "initial_state\<lparr>requests := [insight_request u1_text]\<rparr>"
  note T = batch_write_all_or_nothing
      [where en = ?en and s = initial_state and out = "[u1_insight]" and ?s1.0 = ?s1
         and batch = "[u1_write]" and e = unavailable
         and r = "fst (addInsights ?en initial_state)"
         and s' = "snd (addInsights ?en initial_state)"]
  have g: "generateUserInsights ?en initial_state = (Inr [u1_insight], ?s1)"
    by (simp add: ex_gen u1_insight_def)
  have w: "stage_writes ?en 0 [u1_insight] [] = Inr [u1_write]"
    by (simp add: example_env_def u1_insight_def u1_write_def insight_document_def)
  have c: "commit_rejects ?en [u1_write] = Some unavailable"
    by (simp add: example_env_def)
  from g w c have hyp: "generateUserInsights ?en initial_state = (Inr [u1_insight], ?s1)
        \<and> stage_writes ?en 0 [u1_insight] [] = Inr [u1_write]
        \<and> commit_rejects ?en [u1_write] = Some unavailable"
    by blast
  from mp [OF conjunct2 [OF T] hyp]
  have "addInsights ?en initial_state
     = (Inl (HttpsError ''internal'' ''Failed to add insights.''),
        initial_state\<lparr>requests := [insight_request u1_text],
                      console := [(''Error adding insights:'', unavailable)]\<rparr>)"
    and "users_insights ?s1 = users_insights initial_state"
    by (simp_all add: initial_state_def)
  with g w c show ?thesis by blast
qed

text \<open>
  C10, as amended. An empty insight list is not an error of its own: \<open>addInsights\<close> stages
  no write and commits the empty batch, and the outcome is that commit's. When the commit
  is not rejected the success message is returned; when it is rejected the fixed internal
  error is raised, as for any commit. Either way the insights collection is as it was.
  The list is empty in particular when no user's uid is the uid of a journal entry (no
  users, or no journals, included).
\<close>

theorem empty_insight_list_commits:
  "(generateUserInsights en s = (Inr [], s1) \<longrightarrow>
      stage_writes en 0 [] [] = Inr []
      \<and> users_insights s1 = users_insights s
      \<and> addInsights en s =
          (case commit_rejects en [] of
             None \<Rightarrow> (Inr (JObj [(''message'', JStr ''Insights added successfully.'')]), s1)
           | Some e \<Rightarrow>
               (Inl (HttpsError ''internal'' ''Failed to add insights.''),
                s1\<lparr>console := console s1 @ [(''Error adding insights:'', e)]\<rparr>)))
   \<and> (getAllUser en = Inr users \<and> getUsersJournals en = Inr journals
        \<and> (\<forall>u\<in>set users. \<forall>j\<in>set journals. journal_uid j \<noteq> JStr (uid u)) \<longrightarrow>
      generateUserInsights en s = (Inr [], s))"
proof (intro conjI impI)
  show "stage_writes en 0 [] [] = Inr []"
    by simp
next
  assume "generateUserInsights en s = (Inr [], s1)"
  then show "users_insights s1 = users_insights s"
    by (rule generate_store)
next
  assume "generateUserInsights en s = (Inr [], s1)"
  then show "addInsights en s =
          (case commit_rejects en [] of
             None \<Rightarrow> (Inr (JObj [(''message'', JStr ''Insights added successfully.'')]), s1)
           | Some e \<Rightarrow>
               (Inl (HttpsError ''internal'' ''Failed to add insights.''),
                s1\<lparr>console := console s1 @ [(''Error adding insights:'', e)]\<rparr>))"
    by (simp add: addInsights_def added_def on_error_def failed_to_add_def split: option.splits)
next
  assume "getAllUser en = Inr users \<and> getUsersJournals en = Inr journals
        \<and> (\<forall>u\<in>set users. \<forall>j\<in>set journals. journal_uid j \<noteq> JStr (uid u))"
  then show "generateUserInsights en s = (Inr [], s)"
    by (simp add: generateUserInsights_def loop_no_journals)
qed

theorem empty_insight_list_commits_witness:
  "getAllUser (example_env [u2_doc] (chat_reply (JStr ''x'')) None) = Inr [\<lparr>uid = ''u2''\<rparr>]
   \<and> getUsersJournals (example_env [u2_doc] (chat_reply (JStr ''x'')) None) = Inr [u1_journal]
   \<and> journal_uid u1_journal \<noteq> JStr (uid \<lparr>uid = ''u2''\<rparr>)
   \<and> commit_rejects (example_env [u2_doc] (chat_reply (JStr ''x'')) None) [] = None
   \<and> generateUserInsights (example_env [u2_doc] (chat_reply (JStr ''x'')) None) initial_state
       = (Inr [], initial_state)
   \<and> addInsights (example_env [u2_doc] (chat_reply (JStr ''x'')) None) initial_state
       = (Inr (JObj [(''message'', JStr ''Insights added successfully.'')]), initial_state)"
proof -
  let ?en = "example_env [u2_doc] (chat_reply (JStr ''x'')) None"
  note T = empty_insight_list_commits
      [where en = ?en and s = initial_state and ?s1.0 = initial_state
         and users = "[\<lparr>uid = ''u2''\<rparr>]" and journals = "[u1_journal]"]
  have u: "getAllUser ?en = Inr [\<lparr>uid = ''u2''\<rparr>]"
    by (simp add: getAllUser_def example_env_def user_of_doc_def u2_doc_def
        own_property_def toString_method_def)
  have j: "getUsersJournals ?en = Inr [u1_journal]"
    by (rule ex_journals)
  have n: "\<forall>u\<in>set [\<lparr>uid = ''u2''\<rparr>]. \<forall>j\<in>set [u1_journal]. journal_uid j \<noteq> JStr (uid u)"
    by (simp add: u1_journal_def)
  have c: "commit_rejects ?en [] = None"
    by (simp add: example_env_def)
  have g: "generateUserInsights ?en initial_state = (Inr [], initial_state)"
    using mp [OF conjunct2 [OF T]] u j n by blast
  have "addInsights ?en initial_state
       = (Inr (JObj [(''message'', JStr ''Insights added successfully.'')]), initial_state)"
    using mp [OF conjunct1 [OF T] g] c by simp
  with u j n c g show ?thesis by simp
qed

text \<open>
  The claim without the condition on the commit fails: the insight list is empty, the
  store rejects the commit of the empty batch, and \<open>addInsights\<close> raises the internal error.
\<close>

theorem empty_batch_commit_rejected:
  "generateUserInsights (example_env [u2_doc] (chat_reply (JStr ''x'')) (Some unavailable))
       initial_state = (Inr [], initial_state)
   \<and> commit_rejects (example_env [u2_doc] (chat_reply (JStr ''x'')) (Some unavailable)) []
       = Some unavailable
   \<and> addInsights (example_env [u2_doc] (chat_reply (JStr ''x'')) (Some unavailable))
       initial_state
       = (Inl (HttpsError ''internal'' ''Failed to add insights.''),
          initial_state\<lparr>console := [(''Error adding insights:'', unavailable)]\<rparr>)"
proof -
  let ?en = "example_env [u2_doc] (chat_reply (JStr ''x'')) (Some unavailable)"
  have u: "getAllUser ?en = Inr [\<lparr>uid = ''u2''\<rparr>]"
    by (simp add: getAllUser_def example_env_def user_of_doc_def u2_doc_def
        own_property_def toString_method_def)
  have g: "generateUserInsights ?en initial_state = (Inr [], initial_state)"
    by (simp add: generateUserInsights_def u ex_journals ex_journals_of)
  have c: "commit_rejects ?en [] = Some unavailable"
    by (simp add: example_env_def)
  have e: "console initial_state = []"
    by (simp add: initial_state_def)
  have "addInsights ?en initial_state
       = (Inl (HttpsError ''internal'' ''Failed to add insights.''),
          initial_state\<lparr>console := [(''Error adding insights:'', unavailable)]\<rparr>)"
    by (simp add: addInsights_def g c on_error_def failed_to_add_def e)
  with g c show ?thesis by blast
qed

end
